theory Spec2Isabelle
  imports Main "HOL-Library.Word"
begin

section \<open>The JWT ECDSA verify key manager\<close>

text \<open>
  A shallow embedding of \<^verbatim>\<open>cc/jwt/internal/jwt_ecdsa_verify_key_manager.cc\<close>. The file
  defines the methods of \<^verbatim>\<open>JwtEcdsaVerifyKeyManager\<close> and of its nested
  \<^verbatim>\<open>PublicKeyVerifyFactory\<close>. Both classes read one data member, \<^verbatim>\<open>raw_key_manager_\<close>,
  and every method is \<^verbatim>\<open>const\<close>: a method is a function of that member and of its
  arguments. Each method returns, next to its value, the list of calls it made on
  \<^verbatim>\<open>raw_key_manager_\<close>, in order, so that what a recording test double would observe is
  part of the result.
\<close>

subsection \<open>Status values\<close>

text \<open>
  \<^verbatim>\<open>util::error::Code\<close> is declared outside the file. The file names one code,
  \<^verbatim>\<open>INVALID_ARGUMENT\<close>; every other code that is not OK is kept abstract.
\<close>

datatype Code = INVALID_ARGUMENT | OTHER_CODE nat

text \<open>
  A \<^verbatim>\<open>util::Status\<close> that is not OK: its code and its message. A function returning
  \<^verbatim>\<open>Status\<close> has the type \<open>Status + unit\<close> (\<open>Inr ()\<close> is the OK status), a function
  returning \<^verbatim>\<open>StatusOr<T>\<close> the type \<open>Status + T\<close>.
\<close>

datatype Status = Status Code string

type_synonym 'a StatusOr = "Status + 'a"

subsection \<open>The key message and the enumerations\<close>

text \<open>
  Modelled from the spec: the enumeration \<^verbatim>\<open>JwtEcdsaAlgorithm\<close> comes from a generated
  header that is not part of the sources. The spec gives it the values ES256, ES384, ES512
  and an Unknown sentinel. The \<^verbatim>\<open>switch\<close> of \<^verbatim>\<open>AlgorithmName\<close> has a \<^verbatim>\<open>default\<close>
  label, which also receives a value of the underlying integer type that no enumerator
  names: \<open>ES_OTHER\<close> stands for such a value.
\<close>

datatype JwtEcdsaAlgorithm = ES_UNKNOWN | ES256 | ES384 | ES512 | ES_OTHER int

text \<open>
  Modelled from the spec: the message \<^verbatim>\<open>JwtEcdsaPublicKey\<close> is generated code as well.
  The file reads its \<^verbatim>\<open>algorithm()\<close> field only; the serialized public key it carries
  is opaque here and has the type \<open>'m\<close>.
\<close>

record 'm JwtEcdsaPublicKey =
  algorithm :: JwtEcdsaAlgorithm
  public_key :: 'm

text \<open>
  Modelled from the spec: \<^verbatim>\<open>KeyData::KeyMaterialType\<close>, the classification of key
  material; "public" is \<open>ASYMMETRIC_PUBLIC\<close>.
\<close>

datatype KeyMaterialType =
  UNKNOWN_KEYMATERIAL | SYMMETRIC | ASYMMETRIC_PRIVATE | ASYMMETRIC_PUBLIC | REMOTE

subsection \<open>References to strings\<close>

text \<open>
  \<^verbatim>\<open>get_key_type\<close> returns a \<^verbatim>\<open>const std::string&\<close>. A reference is an address, and
  the strings that live in memory form a store; the address of a string is its index
  in the store. Reading through a reference is \<open>deref\<close>.
\<close>

type_synonym addr = nat

type_synonym store = "string list"

definition deref :: "store \<Rightarrow> addr \<Rightarrow> string option" where
  "deref s a = (if a < length s then Some (s ! a) else None)"

subsection \<open>The Raw Key Manager and the JWT primitive\<close>

text \<open>
  Modelled from the spec: the class \<^verbatim>\<open>RawJwtEcdsaVerifyKeyManager\<close> of the member
  \<^verbatim>\<open>raw_key_manager_\<close> is not part of the sources. An object of the class is the record
  of what its five \<^verbatim>\<open>const\<close> methods return (section 6 of the spec lists them):
  \<^verbatim>\<open>get_version()\<close>, \<^verbatim>\<open>key_material_type()\<close>, \<^verbatim>\<open>get_key_type()\<close> (a reference to a
  string of the object), \<^verbatim>\<open>ValidateKey(key)\<close> and \<^verbatim>\<open>GetPrimitive<PublicKeyVerify>(key)\<close>.
  The primitive \<^verbatim>\<open>PublicKeyVerify\<close> is opaque and has the type \<open>'p\<close>.
\<close>

record ('m, 'p) RawJwtEcdsaVerifyKeyManager =
  raw_get_version :: "32 word"
  raw_key_material_type :: KeyMaterialType
  raw_get_key_type :: addr
  raw_ValidateKey :: "'m JwtEcdsaPublicKey \<Rightarrow> Status + unit"
  raw_GetPrimitive :: "'m JwtEcdsaPublicKey \<Rightarrow> 'p StatusOr"

text \<open>The calls a method can make on \<^verbatim>\<open>raw_key_manager_\<close>.\<close>

datatype 'm RawCall =
  Call_get_version
| Call_key_material_type
| Call_get_key_type
| Call_ValidateKey "'m JwtEcdsaPublicKey"
| Call_GetPrimitive "'m JwtEcdsaPublicKey"

text \<open>
  Modelled from the spec: the class \<^verbatim>\<open>JwtPublicKeyVerifyImpl\<close> is not part of the
  sources. Its constructor takes the primitive and the algorithm name; the object binds
  the two.
\<close>

record 'p JwtPublicKeyVerifyImpl =
  bound_primitive :: 'p
  bound_name :: string

subsection \<open>The methods of the file\<close>

text \<open>\<^verbatim>\<open>JwtEcdsaVerifyKeyManager::AlgorithmName\<close>, a static function (lines 66 to 78).\<close>

fun AlgorithmName :: "JwtEcdsaAlgorithm \<Rightarrow> string StatusOr" where
  "AlgorithmName ES256 = Inr ''ES256''"
| "AlgorithmName ES384 = Inr ''ES384''"
| "AlgorithmName ES512 = Inr ''ES512''"
| "AlgorithmName _ = Inl (Status INVALID_ARGUMENT ''Unknown algorithm'')"

text \<open>
  \<^verbatim>\<open>JwtEcdsaVerifyKeyManager::PublicKeyVerifyFactory::Create\<close> (lines 29 to 46). The
  first \<^verbatim>\<open>return\<close> is taken before any call on \<^verbatim>\<open>raw_key_manager_\<close>; the other two
  follow the call of \<^verbatim>\<open>GetPrimitive\<close>.
\<close>

definition Create ::
  "('m, 'p) RawJwtEcdsaVerifyKeyManager \<Rightarrow> 'm JwtEcdsaPublicKey \<Rightarrow>
     'p JwtPublicKeyVerifyImpl StatusOr \<times> 'm RawCall list" where
  "Create raw_key_manager jwt_ecdsa_public_key =
     (case AlgorithmName (algorithm jwt_ecdsa_public_key) of
        Inl name_status \<Rightarrow> (Inl name_status, [])
      | Inr name \<Rightarrow>
          (case raw_GetPrimitive raw_key_manager jwt_ecdsa_public_key of
             Inl result_status \<Rightarrow> (Inl result_status, [Call_GetPrimitive jwt_ecdsa_public_key])
           | Inr primitive \<Rightarrow>
               (Inr \<lparr>bound_primitive = primitive, bound_name = name\<rparr>,
                [Call_GetPrimitive jwt_ecdsa_public_key])))"

text \<open>\<^verbatim>\<open>JwtEcdsaVerifyKeyManager::get_version\<close> (lines 48 to 50).\<close>

definition get_version ::
  "('m, 'p) RawJwtEcdsaVerifyKeyManager \<Rightarrow> 32 word \<times> 'm RawCall list" where
  "get_version raw_key_manager = (raw_get_version raw_key_manager, [Call_get_version])"

text \<open>\<^verbatim>\<open>JwtEcdsaVerifyKeyManager::key_material_type\<close> (lines 52 to 55).\<close>

definition key_material_type ::
  "('m, 'p) RawJwtEcdsaVerifyKeyManager \<Rightarrow> KeyMaterialType \<times> 'm RawCall list" where
  "key_material_type raw_key_manager =
     (raw_key_material_type raw_key_manager, [Call_key_material_type])"

text \<open>
  \<^verbatim>\<open>JwtEcdsaVerifyKeyManager::get_key_type\<close> (lines 57 to 59): the reference the raw
  manager returns is returned as it is.
\<close>

definition get_key_type ::
  "('m, 'p) RawJwtEcdsaVerifyKeyManager \<Rightarrow> addr \<times> 'm RawCall list" where
  "get_key_type raw_key_manager = (raw_get_key_type raw_key_manager, [Call_get_key_type])"

text \<open>\<^verbatim>\<open>JwtEcdsaVerifyKeyManager::ValidateKey\<close> (lines 61 to 64).\<close>

definition ValidateKey ::
  "('m, 'p) RawJwtEcdsaVerifyKeyManager \<Rightarrow> 'm JwtEcdsaPublicKey \<Rightarrow>
     (Status + unit) \<times> 'm RawCall list" where
  "ValidateKey raw_key_manager key = (raw_ValidateKey raw_key_manager key, [Call_ValidateKey key])"

subsection \<open>A raw key manager to run the methods on\<close>

text \<open>
  A stand-in for the raw key manager, for running the methods on concrete keys: the
  public key is a list of bytes, the primitive it makes is that list, and an empty list
  is refused.
\<close>

definition fake_raw_key_manager :: "(8 word list, 8 word list) RawJwtEcdsaVerifyKeyManager" where
  "fake_raw_key_manager =
     \<lparr>raw_get_version = 0,
      raw_key_material_type = ASYMMETRIC_PUBLIC,
      raw_get_key_type = 0,
      raw_ValidateKey =
        (\<lambda>key. if public_key key = [] then Inl (Status INVALID_ARGUMENT ''Invalid public key'')
                else Inr ()),
      raw_GetPrimitive =
        (\<lambda>key. if public_key key = [] then Inl (Status (OTHER_CODE 13) ''Cannot parse point'')
                else Inr (public_key key))\<rparr>"

subsection \<open>Constructing a raw key manager\<close>

text \<open>
  Modelled from the spec: the constructor of \<^verbatim>\<open>RawJwtEcdsaVerifyKeyManager\<close> is not part
  of the sources. By the spec the key type identifier is a fixed string constant, the
  version is a fixed number, and the key material of a verify manager is public. The
  constants \<open>key_type\<close> and \<open>version\<close> and the two methods \<open>validate\<close> and
  \<open>get_primitive\<close> of the class are parameters. Every object of the class holds a
  string of its own with the key type: the constructor puts it at a fresh address of the
  store, and \<^verbatim>\<open>get_key_type()\<close> of the object returns that address. A
  \<^verbatim>\<open>JwtEcdsaVerifyKeyManager\<close> is constructed without arguments and constructs its member
  \<^verbatim>\<open>raw_key_manager_\<close> this way.
\<close>

definition RawJwtEcdsaVerifyKeyManager_new ::
  "string \<Rightarrow> 32 word \<Rightarrow> ('m JwtEcdsaPublicKey \<Rightarrow> Status + unit) \<Rightarrow>
     ('m JwtEcdsaPublicKey \<Rightarrow> 'p StatusOr) \<Rightarrow> store \<Rightarrow>
     ('m, 'p) RawJwtEcdsaVerifyKeyManager \<times> store" where
  "RawJwtEcdsaVerifyKeyManager_new key_type version validate get_primitive s =
     (\<lparr>raw_get_version = version,
       raw_key_material_type = ASYMMETRIC_PUBLIC,
       raw_get_key_type = length s,
       raw_ValidateKey = validate,
       raw_GetPrimitive = get_primitive\<rparr>,
      s @ [key_type])"

section \<open>Properties\<close>

subsection \<open>The primitive factory\<close>

text \<open>
  C1. When the algorithm of the key resolves to a name and \<^verbatim>\<open>GetPrimitive\<close> of the raw
  key manager succeeds on the key, \<open>Create\<close> returns OK with a verifier that binds the
  primitive the raw key manager made and the name the algorithm resolved to, after one
  call of \<^verbatim>\<open>GetPrimitive\<close> on that key. For a key whose algorithm is ES256 the bound
  name is "ES256".
\<close>

theorem Create_binds_primitive_and_name:
  assumes "AlgorithmName (algorithm key) = Inr name"
    and "raw_GetPrimitive rm key = Inr primitive"
  shows "Create rm key =
           (Inr \<lparr>bound_primitive = primitive, bound_name = name\<rparr>, [Call_GetPrimitive key]) \<and>
         (algorithm key = ES256 \<longrightarrow>
            fst (Create rm key) = Inr \<lparr>bound_primitive = primitive, bound_name = ''ES256''\<rparr>)"
  using assms by (auto simp: Create_def)

theorem Create_binds_primitive_and_name_witness:
  "Create fake_raw_key_manager \<lparr>algorithm = ES256, public_key = [4, 1, 2]\<rparr> =
     (Inr \<lparr>bound_primitive = [4, 1, 2], bound_name = ''ES256''\<rparr>,
      [Call_GetPrimitive \<lparr>algorithm = ES256, public_key = [4, 1, 2]\<rparr>])"
  using Create_binds_primitive_and_name
    [of "\<lparr>algorithm = ES256, public_key = [4, 1, 2]\<rparr>" "''ES256''"
        fake_raw_key_manager "[4, 1, 2]"]
  by (simp add: fake_raw_key_manager_def)

text \<open>
  C2. Construction is all or nothing: \<open>Create\<close> returns a verifier exactly when both the
  resolution of the algorithm name and \<^verbatim>\<open>GetPrimitive\<close> of the raw key manager succeed.
  In every other case the result is a status and holds no verifier; in particular no
  key whose algorithm is the Unknown sentinel gives a verifier, whatever the raw key
  manager does.
\<close>

theorem Create_all_or_nothing:
  "(\<exists>verifier. fst (Create rm key) = Inr verifier) =
     (\<exists>name primitive.
        AlgorithmName (algorithm key) = Inr name \<and> raw_GetPrimitive rm key = Inr primitive) \<and>
   (\<forall>verifier. fst (Create rm (key\<lparr>algorithm := ES_UNKNOWN\<rparr>)) \<noteq> Inr verifier)"
  by (auto simp: Create_def split: sum.splits)

text \<open>
  C3. For a key whose algorithm is none of ES256, ES384 and ES512, \<open>Create\<close> fails with
  a status of code \<^verbatim>\<open>INVALID_ARGUMENT\<close> and makes no call on the raw key manager: the
  list of calls is empty, so \<^verbatim>\<open>GetPrimitive\<close> is not invoked.
\<close>

theorem Create_unknown_algorithm:
  assumes "algorithm key \<notin> {ES256, ES384, ES512}"
  shows "Create rm key = (Inl (Status INVALID_ARGUMENT ''Unknown algorithm''), [])"
  using assms by (cases "algorithm key") (simp_all add: Create_def)

theorem Create_unknown_algorithm_witness:
  "Create fake_raw_key_manager \<lparr>algorithm = ES_UNKNOWN, public_key = [4, 1, 2]\<rparr> =
     (Inl (Status INVALID_ARGUMENT ''Unknown algorithm''), []) \<and>
   Create fake_raw_key_manager \<lparr>algorithm = ES_OTHER 7, public_key = [4, 1, 2]\<rparr> =
     (Inl (Status INVALID_ARGUMENT ''Unknown algorithm''), [])"
  using Create_unknown_algorithm
      [of "\<lparr>algorithm = ES_UNKNOWN, public_key = [4, 1, 2]\<rparr>" fake_raw_key_manager]
    Create_unknown_algorithm
      [of "\<lparr>algorithm = ES_OTHER 7, public_key = [4, 1, 2]\<rparr>" fake_raw_key_manager]
  by simp

text \<open>
  C4. When the algorithm of the key resolves to a name and \<^verbatim>\<open>GetPrimitive\<close> of the raw
  key manager fails on the key, \<open>Create\<close> fails with the status the raw key manager
  returned: the same code and the same message.
\<close>

theorem Create_raw_error:
  assumes "AlgorithmName (algorithm key) = Inr name"
    and "raw_GetPrimitive rm key = Inl status"
  shows "Create rm key = (Inl status, [Call_GetPrimitive key])"
  using assms by (simp add: Create_def)

theorem Create_raw_error_witness:
  "Create fake_raw_key_manager \<lparr>algorithm = ES384, public_key = []\<rparr> =
     (Inl (Status (OTHER_CODE 13) ''Cannot parse point''),
      [Call_GetPrimitive \<lparr>algorithm = ES384, public_key = []\<rparr>])"
  using Create_raw_error
    [of "\<lparr>algorithm = ES384, public_key = []\<rparr>" "''ES384''" fake_raw_key_manager
        "Status (OTHER_CODE 13) ''Cannot parse point''"]
  by (simp add: fake_raw_key_manager_def)

subsection \<open>The names of the algorithms\<close>

text \<open>
  C5. For each of ES256, ES384 and ES512, \<open>AlgorithmName\<close> returns the name of the
  algorithm, the string of the same spelling, and does not fail. It is a function of the
  algorithm alone: it takes no raw key manager and makes no call.
\<close>

theorem AlgorithmName_known:
  "AlgorithmName ES256 = Inr ''ES256'' \<and>
   AlgorithmName ES384 = Inr ''ES384'' \<and>
   AlgorithmName ES512 = Inr ''ES512''"
  by simp

text \<open>
  C6, as amended. For every algorithm that is none of ES256, ES384 and ES512, the Unknown
  sentinel among them, \<open>AlgorithmName\<close> fails with the status of code
  \<^verbatim>\<open>INVALID_ARGUMENT\<close> and message "Unknown algorithm".
\<close>

theorem AlgorithmName_unknown:
  assumes "alg \<notin> {ES256, ES384, ES512}"
  shows "AlgorithmName alg = Inl (Status INVALID_ARGUMENT ''Unknown algorithm'')"
  using assms by (cases alg) simp_all

theorem AlgorithmName_unknown_witness:
  "AlgorithmName ES_UNKNOWN = Inl (Status INVALID_ARGUMENT ''Unknown algorithm'') \<and>
   AlgorithmName (ES_OTHER 7) = Inl (Status INVALID_ARGUMENT ''Unknown algorithm'')"
  using AlgorithmName_unknown [of ES_UNKNOWN] AlgorithmName_unknown [of "ES_OTHER 7"]
  by simp

text \<open>
  C6, as stated, asks for the message "unknown algorithm". The message of the status
  starts with a capital letter, so the status differs from the one the claim names.
\<close>

theorem AlgorithmName_unknown_message_counterexample:
  "AlgorithmName ES_UNKNOWN \<noteq> Inl (Status INVALID_ARGUMENT ''unknown algorithm'')"
  by simp

subsection \<open>Validation\<close>

text \<open>
  C7. \<open>ValidateKey\<close> returns what \<^verbatim>\<open>ValidateKey\<close> of the raw key manager returns on the
  same key, and that one call is all it does: it checks nothing itself and does not
  resolve the algorithm name. So a key whose algorithm is the Unknown sentinel passes
  when the raw key manager accepts it. The result is a function of the manager and the
  key, so a second call on the same key returns what the first returned.
\<close>

theorem ValidateKey_delegates:
  "ValidateKey rm key = (raw_ValidateKey rm key, [Call_ValidateKey key]) \<and>
   (algorithm key = ES_UNKNOWN \<and> raw_ValidateKey rm key = Inr () \<longrightarrow>
      fst (ValidateKey rm key) = Inr ()) \<and>
   (let first = ValidateKey rm key; second = ValidateKey rm key
    in fst second = fst first \<and> fst first = raw_ValidateKey rm key)"
  by (simp add: ValidateKey_def)

theorem ValidateKey_delegates_witness:
  "ValidateKey fake_raw_key_manager \<lparr>algorithm = ES_UNKNOWN, public_key = [4, 1, 2]\<rparr> =
     (Inr (), [Call_ValidateKey \<lparr>algorithm = ES_UNKNOWN, public_key = [4, 1, 2]\<rparr>]) \<and>
   AlgorithmName (algorithm \<lparr>algorithm = ES_UNKNOWN, public_key = [4 :: 8 word, 1, 2]\<rparr>) =
     Inl (Status INVALID_ARGUMENT ''Unknown algorithm'')"
  using ValidateKey_delegates
    [of fake_raw_key_manager "\<lparr>algorithm = ES_UNKNOWN, public_key = [4, 1, 2]\<rparr>"]
  by (simp add: fake_raw_key_manager_def)

subsection \<open>The accessors\<close>

text \<open>
  C8. For a manager whose member \<^verbatim>\<open>raw_key_manager_\<close> is a raw key manager as the spec
  describes it, \<open>key_material_type\<close> returns \<open>ASYMMETRIC_PUBLIC\<close>, whatever the
  constants of the class and the store it was constructed in.
\<close>

theorem key_material_type_public:
  "fst (key_material_type
         (fst (RawJwtEcdsaVerifyKeyManager_new key_type version validate get_primitive s))) =
     ASYMMETRIC_PUBLIC"
  by (simp add: key_material_type_def RawJwtEcdsaVerifyKeyManager_new_def)

text \<open>
  C9. Two managers are constructed one after the other, with any strings allocated in
  between (\<open>between\<close>) and afterwards (\<open>later\<close>). \<open>get_version\<close> returns the same number
  on both, and the references \<open>get_key_type\<close> returns on the two, read at any later
  time, give the same string, the key type of the class. The two references are
  different addresses: each manager has a string of its own. A call is a function of
  the manager, so two calls on one manager return the same value.
\<close>

theorem key_type_and_version_constant:
  "(case RawJwtEcdsaVerifyKeyManager_new key_type version validate get_primitive s of
      (manager1, s1) \<Rightarrow>
        (case RawJwtEcdsaVerifyKeyManager_new key_type version validate get_primitive
                (s1 @ between) of
           (manager2, s2) \<Rightarrow>
             deref s1 (fst (get_key_type manager1)) = Some key_type \<and>
             deref (s2 @ later) (fst (get_key_type manager1)) = Some key_type \<and>
             deref (s2 @ later) (fst (get_key_type manager2)) = Some key_type \<and>
             fst (get_key_type manager1) \<noteq> fst (get_key_type manager2) \<and>
             fst (get_version manager1) = version \<and>
             fst (get_version manager2) = version))"
  by (simp add: RawJwtEcdsaVerifyKeyManager_new_def get_key_type_def get_version_def deref_def
      nth_append)

text \<open>
  C10. For every raw key manager, each of the three accessors makes one call, the call
  of the accessor of the same name on \<^verbatim>\<open>raw_key_manager_\<close>, and returns what that call
  returned. \<open>get_key_type\<close> returns the reference it got: the address is the address of
  the raw key manager's string, so in every store the string read through it is that
  string. The file has no key type of its own.
\<close>

theorem accessors_delegate:
  "get_key_type rm = (raw_get_key_type rm, [Call_get_key_type]) \<and>
   get_version rm = (raw_get_version rm, [Call_get_version]) \<and>
   key_material_type rm = (raw_key_material_type rm, [Call_key_material_type]) \<and>
   (\<forall>s. deref s (fst (get_key_type rm)) = deref s (raw_get_key_type rm))"
  by (simp add: get_key_type_def get_version_def key_material_type_def)

end
